theory Spec2Isabelle
  imports Main
begin

section \<open>Data model (onlinecourse/models.py)\<close>

text \<open>
  The persisted state is the set of tables behind the Django models. Every table is the
  list of its rows, in insertion order; a row is a record of the columns the views read
  or write. Primary keys and every other integer column are Python integers (\<open>int\<close>).
  Columns that no modelled function reads (images, dates, the floating-point rating, the
  lesson, instructor and learner tables) are left out.
\<close>

type_synonym pk = int

text \<open>\<open>request.user\<close>: Django's \<open>AnonymousUser\<close> has \<open>id = None\<close> and
  \<open>is_authenticated = False\<close>; a logged-in \<open>User\<close> has an id and is authenticated.\<close>

datatype user = AnonymousUser | User pk

fun user_id :: "user \<Rightarrow> pk option" where
  "user_id AnonymousUser = None"
| "user_id (User uid) = Some uid"

fun is_authenticated :: "user \<Rightarrow> bool" where
  "is_authenticated AnonymousUser = False"
| "is_authenticated (User uid) = True"

record course =
  course_pk :: pk
  course_name :: string
  total_enrollment :: int

record enrollment =
  enrollment_pk :: pk
  enrollment_user :: pk
  enrollment_course :: pk
  mode :: string

record question =
  question_pk :: pk
  question_course :: pk
  question_content :: string
  grade :: int

record choice =
  choice_pk :: pk
  choice_question :: pk
  choice_content :: string
  is_correct :: bool

record submission =
  submission_pk :: pk
  submission_enrollment :: pk

text \<open>\<open>Submission.choices\<close> is a many-to-many field: its rows are the pairs
  (submission id, choice id) of the join table.\<close>

record db =
  course_rows :: "course list"
  enrollment_rows :: "enrollment list"
  question_rows :: "question list"
  choice_rows :: "choice list"
  submission_rows :: "submission list"
  submission_choices_rows :: "(pk \<times> pk) list"

section \<open>Errors, requests and responses\<close>

datatype model = CourseModel | EnrollmentModel | SubmissionModel

text \<open>Every exception a modelled view can raise is a value: \<open>Http404\<close> from
  \<open>get_object_or_404\<close>, \<open>Model.DoesNotExist\<close> and \<open>Model.MultipleObjectsReturned\<close>
  from \<open>objects.get\<close>, \<open>ValueError\<close> from \<open>int(value)\<close>, \<open>TypeError\<close> from a query
  that filters on the anonymous user.\<close>

datatype error =
    Http404
  | DoesNotExist model
  | MultipleObjectsReturned model
  | ValueError
  | TypeError

text \<open>A request carries the user and the POST form, as the (key, value) pairs of the
  body in order.\<close>

record request =
  request_user :: user
  request_POST :: "(string \<times> string) list"

record exam_context =
  ctx_course :: course
  ctx_grade :: int
  ctx_choices :: "choice list"

text \<open>\<open>HttpResponseRedirect(reverse(viewname, args))\<close> is kept as the view name and its
  arguments; \<open>render(request, template, context)\<close> as the template name and the context.\<close>

datatype response =
    HttpResponseRedirect string "pk list"
  | Render string exam_context

text \<open>A view takes the state and returns the state it leaves behind together with its
  response or the exception it raised: a write made before an exception stays written.\<close>

type_synonym 'a result = "db \<times> (error + 'a)"

section \<open>Query helpers\<close>

text \<open>\<open>Model.objects.get(...)\<close>: exactly one matching row, else an exception.\<close>

definition objects_get :: "model \<Rightarrow> ('a \<Rightarrow> bool) \<Rightarrow> 'a list \<Rightarrow> error + 'a" where
  "objects_get m p rows =
     (case filter p rows of
        [] \<Rightarrow> Inl (DoesNotExist m)
      | [x] \<Rightarrow> Inr x
      | _ \<Rightarrow> Inl (MultipleObjectsReturned m))"

text \<open>\<open>get_object_or_404\<close> turns \<open>DoesNotExist\<close> into \<open>Http404\<close> and lets every other
  exception through.\<close>

definition get_object_or_404 :: "model \<Rightarrow> ('a \<Rightarrow> bool) \<Rightarrow> 'a list \<Rightarrow> error + 'a" where
  "get_object_or_404 m p rows =
     (case objects_get m p rows of
        Inl (DoesNotExist _) \<Rightarrow> Inl Http404
      | Inl e \<Rightarrow> Inl e
      | Inr x \<Rightarrow> Inr x)"

definition get_course :: "db \<Rightarrow> pk \<Rightarrow> error + course" where
  "get_course d course_id =
     get_object_or_404 CourseModel (\<lambda>c. course_pk c = course_id) (course_rows d)"

text \<open>The storage layer gives a new row a primary key that no row of the table has.\<close>

definition fresh_pk :: "pk list \<Rightarrow> pk" where
  "fresh_pk pks = fold max pks 0 + 1"

text \<open>\<open>Enrollment.objects.filter(user=user, course=course)\<close>\<close>

definition enrollment_filter :: "db \<Rightarrow> pk \<Rightarrow> pk \<Rightarrow> enrollment list" where
  "enrollment_filter d uid cid =
     filter (\<lambda>e. enrollment_user e = uid \<and> enrollment_course e = cid) (enrollment_rows d)"

text \<open>\<open>Enrollment.objects.create(user=user, course=course, mode=m)\<close>\<close>

definition enrollment_create :: "db \<Rightarrow> pk \<Rightarrow> pk \<Rightarrow> string \<Rightarrow> db" where
  "enrollment_create d uid cid m =
     d\<lparr>enrollment_rows := enrollment_rows d @
         [\<lparr>enrollment_pk = fresh_pk (map enrollment_pk (enrollment_rows d)),
           enrollment_user = uid, enrollment_course = cid, mode = m\<rparr>]\<rparr>"

text \<open>\<open>course.save()\<close> writes the in-memory object over the row with its primary key,
  and inserts it when there is no such row.\<close>

definition course_save :: "db \<Rightarrow> course \<Rightarrow> db" where
  "course_save d c =
     (if course_pk c \<in> set (map course_pk (course_rows d))
      then d\<lparr>course_rows := map (\<lambda>r. if course_pk r = course_pk c then c else r) (course_rows d)\<rparr>
      else d\<lparr>course_rows := course_rows d @ [c]\<rparr>)"

text \<open>\<open>Submission.objects.create(enrollment=enrollment)\<close>: the new state and the new row.\<close>

definition submission_create :: "db \<Rightarrow> enrollment \<Rightarrow> db \<times> submission" where
  "submission_create d e =
     (let s = \<lparr>submission_pk = fresh_pk (map submission_pk (submission_rows d)),
                submission_enrollment = enrollment_pk e\<rparr>
      in (d\<lparr>submission_rows := submission_rows d @ [s]\<rparr>, s))"

text \<open>\<open>submission.choices.set(ids)\<close>: join rows of the submission whose choice is not among
  \<open>ids\<close> are removed, and one row is added for every id that has none yet. The storage
  layer's referential checks are not part of the source and are not modelled.\<close>

definition choices_set :: "db \<Rightarrow> submission \<Rightarrow> pk list \<Rightarrow> db" where
  "choices_set d s ids =
     (let old = submission_choices_rows d;
          kept = filter (\<lambda>(sid, cid). sid \<noteq> submission_pk s \<or> cid \<in> set ids) old;
          new = filter (\<lambda>cid. (submission_pk s, cid) \<notin> set old) (remdups ids)
      in d\<lparr>submission_choices_rows := kept @ map (\<lambda>cid. (submission_pk s, cid)) new\<rparr>)"

text \<open>\<open>submission.choices.all()\<close>: the choice rows joined to the submission.\<close>

definition submission_choices_all :: "db \<Rightarrow> submission \<Rightarrow> choice list" where
  "submission_choices_all d s =
     filter (\<lambda>c. (submission_pk s, choice_pk c) \<in> set (submission_choices_rows d)) (choice_rows d)"

text \<open>\<open>course.question_set.all()\<close>\<close>

definition question_set_all :: "db \<Rightarrow> course \<Rightarrow> question list" where
  "question_set_all d c = filter (\<lambda>q. question_course q = course_pk c) (question_rows d)"

text \<open>\<open>question.choice_set.filter(is_correct=True)\<close>\<close>

definition correct_choices :: "db \<Rightarrow> question \<Rightarrow> choice list" where
  "correct_choices d q =
     filter (\<lambda>c. choice_question c = question_pk q \<and> is_correct c) (choice_rows d)"

text \<open>\<open>choices.filter(question=question)\<close> on the query set \<open>choices\<close>\<close>

definition selected_choices :: "choice list \<Rightarrow> question \<Rightarrow> choice list" where
  "selected_choices choices q = filter (\<lambda>c. choice_question c = question_pk q) choices"

text \<open>\<open>set(qs)\<close> of a query set: Django model instances are equal, and hash alike, when
  their primary keys are equal, so the Python set is the set of primary keys.\<close>

definition py_set :: "choice list \<Rightarrow> pk set" where
  "py_set cs = set (map choice_pk cs)"

section \<open>Views (onlinecourse/views.py)\<close>

definition check_if_enrolled :: "db \<Rightarrow> user \<Rightarrow> course \<Rightarrow> bool" where
  "check_if_enrolled d u c =
     (case user_id u of
        None \<Rightarrow> False
      | Some uid \<Rightarrow> 0 < length (enrollment_filter d uid (course_pk c)))"

text \<open>\<open>enroll\<close>: the branch for \<open>AnonymousUser\<close> under the test is dead code of the model,
  since \<open>is_authenticated\<close> is false for it.\<close>

definition enroll :: "db \<Rightarrow> request \<Rightarrow> pk \<Rightarrow> response result" where
  "enroll d req course_id =
     (case get_course d course_id of
        Inl e \<Rightarrow> (d, Inl e)
      | Inr c \<Rightarrow>
          (let u = request_user req;
               is_enrolled = check_if_enrolled d u c;
               d' = (if \<not> is_enrolled \<and> is_authenticated u
                     then (case u of
                             AnonymousUser \<Rightarrow> d
                           | User uid \<Rightarrow>
                               course_save (enrollment_create d uid (course_pk c) ''honor'')
                                 (c\<lparr>total_enrollment := total_enrollment c + 1\<rparr>))
                     else d)
           in (d', Inr (HttpResponseRedirect ''onlinecourse:course_details'' [course_pk c]))))"

text \<open>A sequence of \<open>enroll\<close> requests, one after the other; a request that fails leaves
  its state to the next one.\<close>

fun enroll_seq :: "db \<Rightarrow> (request \<times> pk) list \<Rightarrow> db" where
  "enroll_seq d [] = d"
| "enroll_seq d ((req, course_id) # calls) = enroll_seq (fst (enroll d req course_id)) calls"

text \<open>\<open>request.POST\<close> is a \<open>QueryDict\<close>: iterating yields every key once, in the order
  of first appearance, and \<open>request.POST[key]\<close> is the last value sent for the key.\<close>

definition post_keys :: "(string \<times> string) list \<Rightarrow> string list" where
  "post_keys post = rev (remdups (rev (map fst post)))"

definition post_getitem :: "(string \<times> string) list \<Rightarrow> string \<Rightarrow> string" where
  "post_getitem post k = (case rev (filter (\<lambda>(k', v). k' = k) post) of [] \<Rightarrow> [] | (k', v) # _ \<Rightarrow> v)"

text \<open>\<open>extract_answers\<close>: Python's builtin \<open>int\<close> is the parameter \<open>py_int\<close>, with
  \<open>None\<close> where \<open>int(value)\<close> raises \<open>ValueError\<close>.\<close>

fun extract_loop :: "(string \<Rightarrow> int option) \<Rightarrow> (string \<times> string) list \<Rightarrow> string list \<Rightarrow>
    pk list \<Rightarrow> error + pk list" where
  "extract_loop py_int post [] submitted_answers = Inr submitted_answers"
| "extract_loop py_int post (k # ks) submitted_answers =
     (if take 6 k = ''choice''
      then (case py_int (post_getitem post k) of
              None \<Rightarrow> Inl ValueError
            | Some choice_id \<Rightarrow> extract_loop py_int post ks (submitted_answers @ [choice_id]))
      else extract_loop py_int post ks submitted_answers)"

definition extract_answers :: "(string \<Rightarrow> int option) \<Rightarrow> request \<Rightarrow> error + pk list" where
  "extract_answers py_int req =
     extract_loop py_int (request_POST req) (post_keys (request_POST req)) []"

text \<open>\<open>submit\<close>: \<open>Enrollment.objects.get(user=user, course=course)\<close> raises \<open>TypeError\<close>
  when the user is the anonymous user, which has no id to compare with.\<close>

definition submit :: "(string \<Rightarrow> int option) \<Rightarrow> db \<Rightarrow> request \<Rightarrow> pk \<Rightarrow> response result" where
  "submit py_int d req course_id =
     (case get_course d course_id of
        Inl e \<Rightarrow> (d, Inl e)
      | Inr c \<Rightarrow>
          (case request_user req of
             AnonymousUser \<Rightarrow> (d, Inl TypeError)
           | User uid \<Rightarrow>
               (case objects_get EnrollmentModel
                       (\<lambda>e. enrollment_user e = uid \<and> enrollment_course e = course_pk c)
                       (enrollment_rows d) of
                  Inl e \<Rightarrow> (d, Inl e)
                | Inr en \<Rightarrow>
                    (case submission_create d en of
                       (d1, s) \<Rightarrow>
                         (case extract_answers py_int req of
                            Inl e \<Rightarrow> (d1, Inl e)
                          | Inr choices \<Rightarrow>
                              (choices_set d1 s choices,
                               Inr (HttpResponseRedirect ''onlinecourse:exam_result''
                                      [course_id, submission_pk s])))))))"

text \<open>The body of the loop of \<open>show_exam_result\<close>: the running total after one question.\<close>

definition score_question :: "db \<Rightarrow> choice list \<Rightarrow> question \<Rightarrow> int \<Rightarrow> int" where
  "score_question d choices q total_score =
     (if py_set (correct_choices d q) = py_set (selected_choices choices q)
      then total_score + grade q
      else total_score)"

definition show_exam_result :: "db \<Rightarrow> request \<Rightarrow> pk \<Rightarrow> pk \<Rightarrow> response result" where
  "show_exam_result d req course_id submission_id =
     (case get_course d course_id of
        Inl e \<Rightarrow> (d, Inl e)
      | Inr c \<Rightarrow>
          (case objects_get SubmissionModel (\<lambda>s. submission_pk s = submission_id)
                  (submission_rows d) of
             Inl e \<Rightarrow> (d, Inl e)
           | Inr s \<Rightarrow>
               (let choices = submission_choices_all d s;
                    total_score = fold (score_question d choices) (question_set_all d c) 0
                in (d, Inr (Render ''onlinecourse/exam_result_bootstrap.html''
                              \<lparr>ctx_course = c, ctx_grade = total_score, ctx_choices = choices\<rparr>)))))"

text \<open>\<open>Question.is_get_score(selected_ids)\<close> of models.py\<close>

definition is_get_score :: "db \<Rightarrow> question \<Rightarrow> pk list \<Rightarrow> bool" where
  "is_get_score d q selected_ids =
     (let all_answers =
            length (filter (\<lambda>c. choice_question c = question_pk q \<and> is_correct c) (choice_rows d));
          selected_correct =
            length (filter (\<lambda>c. choice_question c = question_pk q \<and> is_correct c \<and>
                                 choice_pk c \<in> set selected_ids) (choice_rows d))
      in all_answers = selected_correct)"

text \<open>The admin site (onlinecourse/admin.py registers \<open>Choice\<close>) lets an instructor edit
  a choice; flipping the \<open>is_correct\<close> flag of the choice with primary key \<open>k\<close>:\<close>

definition flip_row :: "pk \<Rightarrow> choice \<Rightarrow> choice" where
  "flip_row k c = (if choice_pk c = k then c\<lparr>is_correct := \<not> is_correct c\<rparr> else c)"

definition flip_is_correct :: "db \<Rightarrow> pk \<Rightarrow> db" where
  "flip_is_correct d k = d\<lparr>choice_rows := map (flip_row k) (choice_rows d)\<rparr>"

section \<open>Properties of the state\<close>

text \<open>The enrollment rows of a course, and the two readings of "the counter is right":
  it equals the number of rows, and it equals the number of distinct learners.\<close>

definition enrolled_rows :: "db \<Rightarrow> pk \<Rightarrow> enrollment list" where
  "enrolled_rows d cid = filter (\<lambda>e. enrollment_course e = cid) (enrollment_rows d)"

definition rows_consistent :: "db \<Rightarrow> bool" where
  "rows_consistent d =
     list_all (\<lambda>c. total_enrollment c = int (length (enrolled_rows d (course_pk c))))
       (course_rows d)"

definition learners_consistent :: "db \<Rightarrow> bool" where
  "learners_consistent d =
     list_all (\<lambda>c. total_enrollment c =
                  int (length (remdups (map enrollment_user (enrolled_rows d (course_pk c))))))
       (course_rows d)"

section \<open>A concrete state\<close>

text \<open>Two courses. Course 1 has the questions worth 50, 30 and 20 points; course 2 has a
  question worth 40 points and one worth 25 points that has no correct choice. Learner 7
  is enrolled in course 1 and learner 8 in course 2; each has one submission.\<close>

definition ex_course1 :: course where
  "ex_course1 = \<lparr>course_pk = 1, course_name = ''Python'', total_enrollment = 1\<rparr>"

definition ex_course2 :: course where
  "ex_course2 = \<lparr>course_pk = 2, course_name = ''SQL'', total_enrollment = 1\<rparr>"

definition ex_q1 :: question where
  "ex_q1 = \<lparr>question_pk = 1, question_course = 1, question_content = ''q1'', grade = 50\<rparr>"

definition ex_q2 :: question where
  "ex_q2 = \<lparr>question_pk = 2, question_course = 1, question_content = ''q2'', grade = 30\<rparr>"

definition ex_q3 :: question where
  "ex_q3 = \<lparr>question_pk = 3, question_course = 1, question_content = ''q3'', grade = 20\<rparr>"

definition ex_q4 :: question where
  "ex_q4 = \<lparr>question_pk = 4, question_course = 2, question_content = ''q4'', grade = 40\<rparr>"

definition ex_q5 :: question where
  "ex_q5 = \<lparr>question_pk = 5, question_course = 2, question_content = ''q5'', grade = 25\<rparr>"

definition ex_choice :: "pk \<Rightarrow> pk \<Rightarrow> bool \<Rightarrow> choice" where
  "ex_choice k q b =
     \<lparr>choice_pk = k, choice_question = q, choice_content = ''c'', is_correct = b\<rparr>"

definition ex_sub1 :: submission where
  "ex_sub1 = \<lparr>submission_pk = 1, submission_enrollment = 1\<rparr>"

definition ex_sub2 :: submission where
  "ex_sub2 = \<lparr>submission_pk = 2, submission_enrollment = 2\<rparr>"

definition ex_db :: db where
  "ex_db =
     \<lparr>course_rows = [ex_course1, ex_course2],
      enrollment_rows =
        [\<lparr>enrollment_pk = 1, enrollment_user = 7, enrollment_course = 1, mode = ''honor''\<rparr>,
         \<lparr>enrollment_pk = 2, enrollment_user = 8, enrollment_course = 2, mode = ''honor''\<rparr>],
      question_rows = [ex_q1, ex_q2, ex_q3, ex_q4, ex_q5],
      choice_rows =
        [ex_choice 1 1 True, ex_choice 2 1 True, ex_choice 3 1 False,
         ex_choice 4 2 True, ex_choice 5 2 False,
         ex_choice 6 3 True, ex_choice 7 3 False,
         ex_choice 8 4 True, ex_choice 9 5 False],
      submission_rows = [ex_sub1, ex_sub2],
      submission_choices_rows = [(1, 1), (1, 2), (1, 5), (1, 6), (1, 7), (2, 8)]\<rparr>"

definition ex_request :: "user \<Rightarrow> request" where
  "ex_request u = \<lparr>request_user = u, request_POST = [(''choice_1'', ''1'')]\<rparr>"

text \<open>Five requests to \<open>enroll\<close>: a new learner twice, the anonymous user, an enrolled
  learner for a second course, and a course that does not exist.\<close>

definition ex_calls :: "(request \<times> pk) list" where
  "ex_calls =
     [(ex_request (User 9), 1), (ex_request (User 9), 1), (ex_request AnonymousUser, 2),
      (ex_request (User 7), 2), (ex_request (User 7), 5)]"

text \<open>A state with two enrollment rows of learner 7 for course 1, which the storage layer
  does not exclude, and the counter at 2.\<close>

definition ex_dup_db :: db where
  "ex_dup_db =
     \<lparr>course_rows = [ex_course1\<lparr>total_enrollment := 2\<rparr>],
      enrollment_rows =
        [\<lparr>enrollment_pk = 1, enrollment_user = 7, enrollment_course = 1, mode = ''honor''\<rparr>,
         \<lparr>enrollment_pk = 2, enrollment_user = 7, enrollment_course = 1, mode = ''honor''\<rparr>],
      question_rows = [], choice_rows = [], submission_rows = [],
      submission_choices_rows = []\<rparr>"

section \<open>Facts about the query helpers\<close>

lemma objects_get_Inr:
  "objects_get m p rows = Inr x \<Longrightarrow> filter p rows = [x]"
  by (auto simp: objects_get_def split: list.splits)

lemma objects_get_InrD:
  assumes "objects_get m p rows = Inr x" shows "x \<in> set rows" and "p x"
proof -
  have "filter p rows = [x]" using assms by (rule objects_get_Inr)
  then have "x \<in> set (filter p rows)" by simp
  then show "x \<in> set rows" and "p x" by auto
qed

lemma get_object_or_404_Inr:
  "get_object_or_404 m p rows = Inr x \<Longrightarrow> objects_get m p rows = Inr x"
  by (auto simp: get_object_or_404_def split: sum.splits error.splits)

lemma get_course_Inr:
  assumes "get_course d cid = Inr c"
  shows "c \<in> set (course_rows d)" and "course_pk c = cid"
    and "filter (\<lambda>r. course_pk r = cid) (course_rows d) = [c]"
  using assms objects_get_InrD[of CourseModel "\<lambda>c. course_pk c = cid" "course_rows d" c]
    objects_get_Inr[of CourseModel "\<lambda>c. course_pk c = cid" "course_rows d" c]
  by (auto simp: get_course_def dest!: get_object_or_404_Inr)

section \<open>Grading\<close>

lemma fold_score_question:
  "fold (score_question d chs) qs acc =
     acc + (\<Sum>q\<leftarrow>qs. if py_set (correct_choices d q) = py_set (selected_choices chs q)
                       then grade q else 0)"
  by (induction qs arbitrary: acc) (auto simp: score_question_def)

lemma py_set_correct:
  "py_set (correct_choices d q) =
     {k. \<exists>c \<in> set (choice_rows d). choice_pk c = k \<and> choice_question c = question_pk q \<and> is_correct c}"
  by (auto simp: py_set_def correct_choices_def)

lemma py_set_selected:
  "py_set (selected_choices (submission_choices_all d s) q) =
     {k. \<exists>c \<in> set (choice_rows d). choice_pk c = k \<and> choice_question c = question_pk q \<and>
           (submission_pk s, k) \<in> set (submission_choices_rows d)}"
  by (auto simp: py_set_def selected_choices_def submission_choices_all_def)

lemma show_exam_result_total:
  assumes "get_course d course_id = Inr c"
      and "objects_get SubmissionModel (\<lambda>s. submission_pk s = submission_id) (submission_rows d) = Inr s"
  shows "\<exists>ctx. show_exam_result d req course_id submission_id =
             (d, Inr (Render ''onlinecourse/exam_result_bootstrap.html'' ctx)) \<and>
           ctx_grade ctx =
             (\<Sum>q\<leftarrow>filter (\<lambda>q. question_course q = course_id) (question_rows d).
                if {k. \<exists>c \<in> set (choice_rows d). choice_pk c = k \<and> choice_question c = question_pk q \<and>
                       (submission_id, k) \<in> set (submission_choices_rows d)}
                   = {k. \<exists>c \<in> set (choice_rows d). choice_pk c = k \<and> choice_question c = question_pk q \<and>
                       is_correct c}
                then grade q else 0)"
proof -
  have pk: "course_pk c = course_id" using assms(1) by (rule get_course_Inr)
  have sk: "submission_pk s = submission_id" using assms(2) by (rule objects_get_InrD)
  let ?chs = "submission_choices_all d s"
  let ?total = "fold (score_question d ?chs) (question_set_all d c) 0"
  have run: "show_exam_result d req course_id submission_id =
      (d, Inr (Render ''onlinecourse/exam_result_bootstrap.html''
                 \<lparr>ctx_course = c, ctx_grade = ?total, ctx_choices = ?chs\<rparr>))"
    using assms by (simp add: show_exam_result_def Let_def)
  have cond: "(py_set (correct_choices d q) = py_set (selected_choices ?chs q)) =
      ({k. \<exists>c \<in> set (choice_rows d). choice_pk c = k \<and> choice_question c = question_pk q \<and>
             (submission_id, k) \<in> set (submission_choices_rows d)}
       = {k. \<exists>c \<in> set (choice_rows d). choice_pk c = k \<and> choice_question c = question_pk q \<and>
             is_correct c})" for q
    unfolding py_set_correct py_set_selected sk by (rule eq_commute)
  have total: "?total =
      (\<Sum>q\<leftarrow>filter (\<lambda>q. question_course q = course_id) (question_rows d).
         if {k. \<exists>c \<in> set (choice_rows d). choice_pk c = k \<and> choice_question c = question_pk q \<and>
                (submission_id, k) \<in> set (submission_choices_rows d)}
            = {k. \<exists>c \<in> set (choice_rows d). choice_pk c = k \<and> choice_question c = question_pk q \<and>
                is_correct c}
         then grade q else 0)"
    unfolding fold_score_question cond question_set_all_def pk by simp
  show ?thesis unfolding run using total by simp
qed

text \<open>
  Claim C1. When the course and the submission exist, \<open>show_exam_result\<close> renders the
  result page, and the grade in its context is the sum, over the questions of the course,
  of the question's grade when the set of the submission's choices that belong to the
  question equals the set of the question's choices flagged correct, and of 0 otherwise.
  Equality of the two sets leaves no credit for a strict subset or a strict superset.
\<close>

theorem grade_total_score:
  assumes "get_course d course_id = Inr c"
      and "objects_get SubmissionModel (\<lambda>s. submission_pk s = submission_id) (submission_rows d) = Inr s"
  shows "\<exists>ctx. show_exam_result d req course_id submission_id =
             (d, Inr (Render ''onlinecourse/exam_result_bootstrap.html'' ctx)) \<and>
           ctx_grade ctx =
             (\<Sum>q\<leftarrow>filter (\<lambda>q. question_course q = course_id) (question_rows d).
                if {k. \<exists>c \<in> set (choice_rows d). choice_pk c = k \<and> choice_question c = question_pk q \<and>
                       (submission_id, k) \<in> set (submission_choices_rows d)}
                   = {k. \<exists>c \<in> set (choice_rows d). choice_pk c = k \<and> choice_question c = question_pk q \<and>
                       is_correct c}
                then grade q else 0)"
  using assms by (rule show_exam_result_total)

text \<open>The questions worth 50, 30 and 20 points, of which the submission answers the
  first one exactly, the second one wrongly and the third one with a superset: 50 points.\<close>

theorem grade_total_score_witness:
  "get_course ex_db 1 = Inr ex_course1 \<and>
   objects_get SubmissionModel (\<lambda>s. submission_pk s = 1) (submission_rows ex_db) = Inr ex_sub1 \<and>
   (\<Sum>q\<leftarrow>filter (\<lambda>q. question_course q = 1) (question_rows ex_db).
      if {k. \<exists>c \<in> set (choice_rows ex_db). choice_pk c = k \<and> choice_question c = question_pk q \<and>
             (1, k) \<in> set (submission_choices_rows ex_db)}
         = {k. \<exists>c \<in> set (choice_rows ex_db). choice_pk c = k \<and> choice_question c = question_pk q \<and>
             is_correct c}
      then grade q else 0) = 50"
proof -
  have a: "get_course ex_db 1 = Inr ex_course1" by code_simp
  have b: "objects_get SubmissionModel (\<lambda>s. submission_pk s = 1) (submission_rows ex_db)
             = Inr ex_sub1" by code_simp
  have run: "show_exam_result ex_db (ex_request (User 7)) 1 1 =
      (ex_db, Inr (Render ''onlinecourse/exam_result_bootstrap.html''
         \<lparr>ctx_course = ex_course1, ctx_grade = 50,
           ctx_choices = [ex_choice 1 1 True, ex_choice 2 1 True, ex_choice 5 2 False,
                          ex_choice 6 3 True, ex_choice 7 3 False]\<rparr>))"
    by code_simp
  show ?thesis
    using a b grade_total_score [OF a b, of "ex_request (User 7)"] unfolding run by auto
qed

text \<open>The test of the loop on raw rows, in a form that evaluates.\<close>

lemma award_test_code:
  "({k. \<exists>c \<in> set (choice_rows d). choice_pk c = k \<and> choice_question c = question_pk q \<and>
          (submission_id, k) \<in> set (submission_choices_rows d)}
    = {k. \<exists>c \<in> set (choice_rows d). choice_pk c = k \<and> choice_question c = question_pk q \<and>
          is_correct c}) =
   (set (map choice_pk
      (filter (\<lambda>c. choice_question c = question_pk q \<and>
                    (submission_id, choice_pk c) \<in> set (submission_choices_rows d)) (choice_rows d)))
    = set (map choice_pk
      (filter (\<lambda>c. choice_question c = question_pk q \<and> is_correct c) (choice_rows d))))"
proof -
  have a: "{k. \<exists>c \<in> set (choice_rows d). choice_pk c = k \<and> choice_question c = question_pk q \<and>
          (submission_id, k) \<in> set (submission_choices_rows d)} =
      set (map choice_pk
        (filter (\<lambda>c. choice_question c = question_pk q \<and>
                    (submission_id, choice_pk c) \<in> set (submission_choices_rows d)) (choice_rows d)))"
    by auto
  have b: "{k. \<exists>c \<in> set (choice_rows d). choice_pk c = k \<and> choice_question c = question_pk q \<and>
          is_correct c} =
      set (map choice_pk
        (filter (\<lambda>c. choice_question c = question_pk q \<and> is_correct c) (choice_rows d)))"
    by auto
  show ?thesis unfolding a b ..
qed

text \<open>A question of the course with no correct choice, of which the submission selects
  no choice, enters the total with its full grade.\<close>

lemma empty_key_award:
  assumes "get_course d course_id = Inr c"
      and "objects_get SubmissionModel (\<lambda>s. submission_pk s = submission_id) (submission_rows d) = Inr s"
      and "q \<in> set (question_rows d)"
      and "question_course q = course_id"
      and "filter (\<lambda>ch. choice_question ch = question_pk q \<and> is_correct ch) (choice_rows d) = []"
      and "filter (\<lambda>ch. choice_question ch = question_pk q \<and>
                         (submission_id, choice_pk ch) \<in> set (submission_choices_rows d))
             (choice_rows d) = []"
  shows "\<exists>ctx. show_exam_result d req course_id submission_id =
             (d, Inr (Render ''onlinecourse/exam_result_bootstrap.html'' ctx)) \<and>
           ctx_grade ctx =
             grade q +
             (\<Sum>q'\<leftarrow>remove1 q (filter (\<lambda>q. question_course q = course_id) (question_rows d)).
                if {k. \<exists>ch \<in> set (choice_rows d). choice_pk ch = k \<and>
                       choice_question ch = question_pk q' \<and>
                       (submission_id, k) \<in> set (submission_choices_rows d)}
                   = {k. \<exists>ch \<in> set (choice_rows d). choice_pk ch = k \<and>
                       choice_question ch = question_pk q' \<and> is_correct ch}
                then grade q' else 0)"
proof -
  let ?f = "\<lambda>q'. if {k. \<exists>ch \<in> set (choice_rows d). choice_pk ch = k \<and>
                       choice_question ch = question_pk q' \<and>
                       (submission_id, k) \<in> set (submission_choices_rows d)}
                   = {k. \<exists>ch \<in> set (choice_rows d). choice_pk ch = k \<and>
                       choice_question ch = question_pk q' \<and> is_correct ch}
                then grade q' else 0"
  let ?qs = "filter (\<lambda>q. question_course q = course_id) (question_rows d)"
  obtain ctx where run: "show_exam_result d req course_id submission_id =
      (d, Inr (Render ''onlinecourse/exam_result_bootstrap.html'' ctx))"
    and total: "ctx_grade ctx = sum_list (map ?f ?qs)"
    using show_exam_result_total[OF assms(1,2), of req] by blast
  have mem: "q \<in> set ?qs" using assms(3,4) by simp
  have none_correct: "\<not> (choice_question ch = question_pk q \<and> is_correct ch)"
    if "ch \<in> set (choice_rows d)" for ch
    using assms(5) that by (simp add: filter_empty_conv)
  have none_selected: "\<not> (choice_question ch = question_pk q \<and>
      (submission_id, choice_pk ch) \<in> set (submission_choices_rows d))"
    if "ch \<in> set (choice_rows d)" for ch
    using assms(6) that by (simp add: filter_empty_conv)
  have e1: "{k. \<exists>ch \<in> set (choice_rows d). choice_pk ch = k \<and> choice_question ch = question_pk q \<and>
            (submission_id, k) \<in> set (submission_choices_rows d)} = {}"
    using none_selected by blast
  have e2: "{k. \<exists>ch \<in> set (choice_rows d). choice_pk ch = k \<and>
            choice_question ch = question_pk q \<and> is_correct ch} = {}"
    using none_correct by blast
  have award: "?f q = grade q" by (simp only: e1 e2, simp)
  have "sum_list (map ?f ?qs) = ?f q + sum_list (map ?f (remove1 q ?qs))"
    using mem by (rule sum_list_map_remove1)
  then have "ctx_grade ctx = grade q + sum_list (map ?f (remove1 q ?qs))"
    using total award by simp
  then show ?thesis using run by blast
qed

text \<open>
  Claim C3. For an existing course and submission, and a question of the course none of
  whose choice rows is flagged correct and none of whose choice rows is selected by the
  submission, \<open>show_exam_result\<close> awards the question its full grade: the rendered grade
  is the grade of the question plus the points of the other questions of the course.
\<close>

theorem empty_key_full_points:
  assumes "get_course d course_id = Inr c"
      and "objects_get SubmissionModel (\<lambda>s. submission_pk s = submission_id) (submission_rows d) = Inr s"
      and "q \<in> set (question_rows d)"
      and "question_course q = course_id"
      and "filter (\<lambda>ch. choice_question ch = question_pk q \<and> is_correct ch) (choice_rows d) = []"
      and "filter (\<lambda>ch. choice_question ch = question_pk q \<and>
                         (submission_id, choice_pk ch) \<in> set (submission_choices_rows d))
             (choice_rows d) = []"
  shows "\<exists>ctx. show_exam_result d req course_id submission_id =
             (d, Inr (Render ''onlinecourse/exam_result_bootstrap.html'' ctx)) \<and>
           ctx_grade ctx =
             grade q +
             (\<Sum>q'\<leftarrow>remove1 q (filter (\<lambda>q. question_course q = course_id) (question_rows d)).
                if {k. \<exists>ch \<in> set (choice_rows d). choice_pk ch = k \<and>
                       choice_question ch = question_pk q' \<and>
                       (submission_id, k) \<in> set (submission_choices_rows d)}
                   = {k. \<exists>ch \<in> set (choice_rows d). choice_pk ch = k \<and>
                       choice_question ch = question_pk q' \<and> is_correct ch}
                then grade q' else 0)"
  using assms by (rule empty_key_award)

text \<open>Question 5 (25 points, no correct choice) and submission 2, which selects none of its
  choices: 65 points are rendered, 40 of them for the other question of course 2.\<close>

theorem empty_key_full_points_witness:
  "get_course ex_db 2 = Inr ex_course2 \<and>
   objects_get SubmissionModel (\<lambda>s. submission_pk s = 2) (submission_rows ex_db) = Inr ex_sub2 \<and>
   ex_q5 \<in> set (question_rows ex_db) \<and>
   question_course ex_q5 = 2 \<and>
   filter (\<lambda>ch. choice_question ch = question_pk ex_q5 \<and> is_correct ch) (choice_rows ex_db) = [] \<and>
   filter (\<lambda>ch. choice_question ch = question_pk ex_q5 \<and>
                  (2, choice_pk ch) \<in> set (submission_choices_rows ex_db)) (choice_rows ex_db) = [] \<and>
   show_exam_result ex_db (ex_request (User 8)) 2 2 =
     (ex_db, Inr (Render ''onlinecourse/exam_result_bootstrap.html''
        \<lparr>ctx_course = ex_course2, ctx_grade = 65, ctx_choices = [ex_choice 8 4 True]\<rparr>)) \<and>
   grade ex_q5 = 25 \<and>
   (\<Sum>q'\<leftarrow>remove1 ex_q5 (filter (\<lambda>q. question_course q = 2) (question_rows ex_db)).
      if {k. \<exists>ch \<in> set (choice_rows ex_db). choice_pk ch = k \<and>
             choice_question ch = question_pk q' \<and>
             (2, k) \<in> set (submission_choices_rows ex_db)}
         = {k. \<exists>ch \<in> set (choice_rows ex_db). choice_pk ch = k \<and>
             choice_question ch = question_pk q' \<and> is_correct ch}
      then grade q' else 0) = 40"
proof -
  have a: "get_course ex_db 2 = Inr ex_course2" by code_simp
  have b: "objects_get SubmissionModel (\<lambda>s. submission_pk s = 2) (submission_rows ex_db)
             = Inr ex_sub2" by code_simp
  have m: "ex_q5 \<in> set (question_rows ex_db)" by code_simp
  have qc: "question_course ex_q5 = 2" by code_simp
  have nc: "filter (\<lambda>ch. choice_question ch = question_pk ex_q5 \<and> is_correct ch)
              (choice_rows ex_db) = []" by code_simp
  have ns: "filter (\<lambda>ch. choice_question ch = question_pk ex_q5 \<and>
                  (2, choice_pk ch) \<in> set (submission_choices_rows ex_db)) (choice_rows ex_db) = []"
    by code_simp
  have run: "show_exam_result ex_db (ex_request (User 8)) 2 2 =
     (ex_db, Inr (Render ''onlinecourse/exam_result_bootstrap.html''
        \<lparr>ctx_course = ex_course2, ctx_grade = 65, ctx_choices = [ex_choice 8 4 True]\<rparr>))"
    by code_simp
  have g: "grade ex_q5 = 25" by code_simp
  have "\<exists>ctx. show_exam_result ex_db (ex_request (User 8)) 2 2 =
             (ex_db, Inr (Render ''onlinecourse/exam_result_bootstrap.html'' ctx)) \<and>
           ctx_grade ctx = grade ex_q5 + (\<Sum>q'\<leftarrow>remove1 ex_q5 (filter (\<lambda>q. question_course q = 2) (question_rows ex_db)).
      if {k. \<exists>ch \<in> set (choice_rows ex_db). choice_pk ch = k \<and>
             choice_question ch = question_pk q' \<and>
             (2, k) \<in> set (submission_choices_rows ex_db)}
         = {k. \<exists>ch \<in> set (choice_rows ex_db). choice_pk ch = k \<and>
             choice_question ch = question_pk q' \<and> is_correct ch}
      then grade q' else 0)"
    by (rule empty_key_full_points [OF a b m qc nc ns])
  then have rest: "(\<Sum>q'\<leftarrow>remove1 ex_q5 (filter (\<lambda>q. question_course q = 2) (question_rows ex_db)).
      if {k. \<exists>ch \<in> set (choice_rows ex_db). choice_pk ch = k \<and>
             choice_question ch = question_pk q' \<and>
             (2, k) \<in> set (submission_choices_rows ex_db)}
         = {k. \<exists>ch \<in> set (choice_rows ex_db). choice_pk ch = k \<and>
             choice_question ch = question_pk q' \<and> is_correct ch}
      then grade q' else 0) = 40"
    unfolding run g by auto
  show ?thesis using a b m qc nc ns run g rest by blast
qed

text \<open>
  Claim C2, as amended. For an existing course and submission, and a question of the
  course none of whose choice rows is flagged correct and none of whose choice rows is
  selected by the submission, \<open>show_exam_result\<close> awards the question its full grade;
  the question is awarded 0 points (the rendered grade is that of the other questions
  alone) exactly when its grade is 0.
\<close>

theorem empty_key_zero_iff:
  assumes "get_course d course_id = Inr c"
      and "objects_get SubmissionModel (\<lambda>s. submission_pk s = submission_id) (submission_rows d) = Inr s"
      and "q \<in> set (question_rows d)"
      and "question_course q = course_id"
      and "filter (\<lambda>ch. choice_question ch = question_pk q \<and> is_correct ch) (choice_rows d) = []"
      and "filter (\<lambda>ch. choice_question ch = question_pk q \<and>
                         (submission_id, choice_pk ch) \<in> set (submission_choices_rows d))
             (choice_rows d) = []"
  shows "\<exists>ctx. show_exam_result d req course_id submission_id =
             (d, Inr (Render ''onlinecourse/exam_result_bootstrap.html'' ctx)) \<and>
           ctx_grade ctx =
             grade q +
             (\<Sum>q'\<leftarrow>remove1 q (filter (\<lambda>q. question_course q = course_id) (question_rows d)).
                if {k. \<exists>ch \<in> set (choice_rows d). choice_pk ch = k \<and>
                       choice_question ch = question_pk q' \<and>
                       (submission_id, k) \<in> set (submission_choices_rows d)}
                   = {k. \<exists>ch \<in> set (choice_rows d). choice_pk ch = k \<and>
                       choice_question ch = question_pk q' \<and> is_correct ch}
                then grade q' else 0) \<and>
           ((ctx_grade ctx =
             0 +
             (\<Sum>q'\<leftarrow>remove1 q (filter (\<lambda>q. question_course q = course_id) (question_rows d)).
                if {k. \<exists>ch \<in> set (choice_rows d). choice_pk ch = k \<and>
                       choice_question ch = question_pk q' \<and>
                       (submission_id, k) \<in> set (submission_choices_rows d)}
                   = {k. \<exists>ch \<in> set (choice_rows d). choice_pk ch = k \<and>
                       choice_question ch = question_pk q' \<and> is_correct ch}
                then grade q' else 0)) = (grade q = 0))"
proof -
  obtain ctx where run: "show_exam_result d req course_id submission_id =
             (d, Inr (Render ''onlinecourse/exam_result_bootstrap.html'' ctx))"
    and total: "ctx_grade ctx =
             grade q +
             (\<Sum>q'\<leftarrow>remove1 q (filter (\<lambda>q. question_course q = course_id) (question_rows d)).
                if {k. \<exists>ch \<in> set (choice_rows d). choice_pk ch = k \<and>
                       choice_question ch = question_pk q' \<and>
                       (submission_id, k) \<in> set (submission_choices_rows d)}
                   = {k. \<exists>ch \<in> set (choice_rows d). choice_pk ch = k \<and>
                       choice_question ch = question_pk q' \<and> is_correct ch}
                then grade q' else 0)"
    using empty_key_award [OF assms, of req] by blast
  have "(ctx_grade ctx =
             0 +
             (\<Sum>q'\<leftarrow>remove1 q (filter (\<lambda>q. question_course q = course_id) (question_rows d)).
                if {k. \<exists>ch \<in> set (choice_rows d). choice_pk ch = k \<and>
                       choice_question ch = question_pk q' \<and>
                       (submission_id, k) \<in> set (submission_choices_rows d)}
                   = {k. \<exists>ch \<in> set (choice_rows d). choice_pk ch = k \<and>
                       choice_question ch = question_pk q' \<and> is_correct ch}
                then grade q' else 0)) = (grade q = 0)"
    unfolding total by simp
  then show ?thesis using run total by blast
qed

theorem empty_key_zero_iff_witness:
  "get_course ex_db 2 = Inr ex_course2 \<and>
   objects_get SubmissionModel (\<lambda>s. submission_pk s = 2) (submission_rows ex_db) = Inr ex_sub2 \<and>
   ex_q5 \<in> set (question_rows ex_db) \<and>
   question_course ex_q5 = 2 \<and>
   filter (\<lambda>ch. choice_question ch = question_pk ex_q5 \<and> is_correct ch) (choice_rows ex_db) = [] \<and>
   filter (\<lambda>ch. choice_question ch = question_pk ex_q5 \<and>
                  (2, choice_pk ch) \<in> set (submission_choices_rows ex_db)) (choice_rows ex_db) = [] \<and>
   show_exam_result ex_db (ex_request (User 8)) 2 2 =
     (ex_db, Inr (Render ''onlinecourse/exam_result_bootstrap.html''
        \<lparr>ctx_course = ex_course2, ctx_grade = 65, ctx_choices = [ex_choice 8 4 True]\<rparr>)) \<and>
   grade ex_q5 \<noteq> 0 \<and>
   65 \<noteq> 0 + (\<Sum>q'\<leftarrow>remove1 ex_q5 (filter (\<lambda>q. question_course q = 2) (question_rows ex_db)).
      if {k. \<exists>ch \<in> set (choice_rows ex_db). choice_pk ch = k \<and>
             choice_question ch = question_pk q' \<and>
             (2, k) \<in> set (submission_choices_rows ex_db)}
         = {k. \<exists>ch \<in> set (choice_rows ex_db). choice_pk ch = k \<and>
             choice_question ch = question_pk q' \<and> is_correct ch}
      then grade q' else 0)"
proof -
  have a: "get_course ex_db 2 = Inr ex_course2" by code_simp
  have b: "objects_get SubmissionModel (\<lambda>s. submission_pk s = 2) (submission_rows ex_db)
             = Inr ex_sub2" by code_simp
  have m: "ex_q5 \<in> set (question_rows ex_db)" by code_simp
  have qc: "question_course ex_q5 = 2" by code_simp
  have nc: "filter (\<lambda>ch. choice_question ch = question_pk ex_q5 \<and> is_correct ch)
              (choice_rows ex_db) = []" by code_simp
  have ns: "filter (\<lambda>ch. choice_question ch = question_pk ex_q5 \<and>
                  (2, choice_pk ch) \<in> set (submission_choices_rows ex_db)) (choice_rows ex_db) = []"
    by code_simp
  have run: "show_exam_result ex_db (ex_request (User 8)) 2 2 =
     (ex_db, Inr (Render ''onlinecourse/exam_result_bootstrap.html''
        \<lparr>ctx_course = ex_course2, ctx_grade = 65, ctx_choices = [ex_choice 8 4 True]\<rparr>))"
    by code_simp
  have g: "grade ex_q5 = 25" by code_simp
  have "\<exists>ctx. show_exam_result ex_db (ex_request (User 8)) 2 2 =
             (ex_db, Inr (Render ''onlinecourse/exam_result_bootstrap.html'' ctx)) \<and>
           ctx_grade ctx = grade ex_q5 + (\<Sum>q'\<leftarrow>remove1 ex_q5 (filter (\<lambda>q. question_course q = 2) (question_rows ex_db)).
      if {k. \<exists>ch \<in> set (choice_rows ex_db). choice_pk ch = k \<and>
             choice_question ch = question_pk q' \<and>
             (2, k) \<in> set (submission_choices_rows ex_db)}
         = {k. \<exists>ch \<in> set (choice_rows ex_db). choice_pk ch = k \<and>
             choice_question ch = question_pk q' \<and> is_correct ch}
      then grade q' else 0) \<and>
           ((ctx_grade ctx = 0 + (\<Sum>q'\<leftarrow>remove1 ex_q5 (filter (\<lambda>q. question_course q = 2) (question_rows ex_db)).
      if {k. \<exists>ch \<in> set (choice_rows ex_db). choice_pk ch = k \<and>
             choice_question ch = question_pk q' \<and>
             (2, k) \<in> set (submission_choices_rows ex_db)}
         = {k. \<exists>ch \<in> set (choice_rows ex_db). choice_pk ch = k \<and>
             choice_question ch = question_pk q' \<and> is_correct ch}
      then grade q' else 0)) = (grade ex_q5 = 0))"
    by (rule empty_key_zero_iff [OF a b m qc nc ns])
  then have ne: "65 \<noteq> 0 + (\<Sum>q'\<leftarrow>remove1 ex_q5 (filter (\<lambda>q. question_course q = 2) (question_rows ex_db)).
      if {k. \<exists>ch \<in> set (choice_rows ex_db). choice_pk ch = k \<and>
             choice_question ch = question_pk q' \<and>
             (2, k) \<in> set (submission_choices_rows ex_db)}
         = {k. \<exists>ch \<in> set (choice_rows ex_db). choice_pk ch = k \<and>
             choice_question ch = question_pk q' \<and> is_correct ch}
      then grade q' else 0)"
    unfolding run g by auto
  have g0: "grade ex_q5 \<noteq> 0" using g by simp
  show ?thesis using a b m qc nc ns run g0 ne by blast
qed

text \<open>Claim C2 as stated fails: question 5 of the concrete state is worth 25 points and has
  no correct choice, submission 2 selects none of its choices, and the rendered grade is
  65, of which the other question of the course accounts for 40: question 5 is awarded 25
  points, not 0.\<close>

theorem empty_key_zero_counterexample:
  "get_course ex_db 2 = Inr ex_course2 \<and>
   objects_get SubmissionModel (\<lambda>s. submission_pk s = 2) (submission_rows ex_db) = Inr ex_sub2 \<and>
   ex_q5 \<in> set (question_rows ex_db) \<and>
   question_course ex_q5 = 2 \<and>
   filter (\<lambda>ch. choice_question ch = question_pk ex_q5 \<and> is_correct ch) (choice_rows ex_db) = [] \<and>
   filter (\<lambda>ch. choice_question ch = question_pk ex_q5 \<and>
                  (2, choice_pk ch) \<in> set (submission_choices_rows ex_db)) (choice_rows ex_db) = [] \<and>
   show_exam_result ex_db (ex_request (User 8)) 2 2 =
     (ex_db, Inr (Render ''onlinecourse/exam_result_bootstrap.html''
        \<lparr>ctx_course = ex_course2, ctx_grade = 65, ctx_choices = [ex_choice 8 4 True]\<rparr>)) \<and>
   (\<Sum>q'\<leftarrow>remove1 ex_q5 (filter (\<lambda>q. question_course q = 2) (question_rows ex_db)).
      if {k. \<exists>ch \<in> set (choice_rows ex_db). choice_pk ch = k \<and>
             choice_question ch = question_pk q' \<and>
             (2, k) \<in> set (submission_choices_rows ex_db)}
         = {k. \<exists>ch \<in> set (choice_rows ex_db). choice_pk ch = k \<and>
             choice_question ch = question_pk q' \<and> is_correct ch}
      then grade q' else 0) = 40"
  unfolding award_test_code by code_simp

section \<open>Grading and the enrollment of the submission\<close>

lemma show_exam_result_state: "fst (show_exam_result d req course_id submission_id) = d"
  by (simp add: show_exam_result_def Let_def split: sum.splits)

lemma objects_get_map:
  assumes "\<And>x. p (g x) = p x"
  shows "objects_get m p (map g rows) = map_sum id g (objects_get m p rows)"
proof -
  have "filter p (map g rows) = map g (filter p rows)"
    by (simp add: filter_map comp_def assms)
  then show ?thesis by (simp add: objects_get_def split: list.splits)
qed

lemma show_exam_result_relinked:
  "snd (show_exam_result
          (d\<lparr>enrollment_rows := es,
             submission_rows := map (\<lambda>s. s\<lparr>submission_enrollment := f s\<rparr>) (submission_rows d)\<rparr>)
          req course_id submission_id) =
   snd (show_exam_result d req course_id submission_id)"
proof -
  let ?g = "\<lambda>s. s\<lparr>submission_enrollment := f s\<rparr>"
  let ?d = "d\<lparr>enrollment_rows := es, submission_rows := map ?g (submission_rows d)\<rparr>"
  have course: "get_course ?d course_id = get_course d course_id"
    by (simp add: get_course_def)
  have sub: "objects_get SubmissionModel (\<lambda>s. submission_pk s = submission_id) (submission_rows ?d) =
      map_sum id ?g
        (objects_get SubmissionModel (\<lambda>s. submission_pk s = submission_id) (submission_rows d))"
    by (simp add: objects_get_map)
  have chs: "submission_choices_all ?d (?g s) = submission_choices_all d s" for s
    by (simp add: submission_choices_all_def)
  have qs: "question_set_all ?d c = question_set_all d c" for c
    by (simp add: question_set_all_def)
  have sc: "score_question ?d = score_question d"
    by (intro ext) (simp add: score_question_def correct_choices_def)
  show ?thesis
    unfolding show_exam_result_def course sub
    by (cases "get_course d course_id";
        cases "objects_get SubmissionModel (\<lambda>s. submission_pk s = submission_id) (submission_rows d)")
       (simp_all add: Let_def chs qs sc)
qed

text \<open>
  Claim C6, as amended. When the course and the submission both exist,
  \<open>show_exam_result\<close> does not fail for a submission that belongs to no enrollment in
  the given course: it renders the score of the submission's choices against the
  questions of the given course, and renders the same whatever the enrollment table holds
  and whatever enrollment the submissions are linked to.
\<close>

theorem grade_ignores_enrollment:
  assumes "get_course d course_id = Inr c"
      and "objects_get SubmissionModel (\<lambda>s. submission_pk s = submission_id) (submission_rows d) = Inr s"
  shows "\<exists>ctx. show_exam_result d req course_id submission_id =
             (d, Inr (Render ''onlinecourse/exam_result_bootstrap.html'' ctx)) \<and>
           ctx_grade ctx =
             (\<Sum>q\<leftarrow>filter (\<lambda>q. question_course q = course_id) (question_rows d).
                if {k. \<exists>ch \<in> set (choice_rows d). choice_pk ch = k \<and>
                       choice_question ch = question_pk q \<and>
                       (submission_id, k) \<in> set (submission_choices_rows d)}
                   = {k. \<exists>ch \<in> set (choice_rows d). choice_pk ch = k \<and>
                       choice_question ch = question_pk q \<and> is_correct ch}
                then grade q else 0) \<and>
           snd (show_exam_result
                  (d\<lparr>enrollment_rows := es,
                     submission_rows :=
                       map (\<lambda>s. s\<lparr>submission_enrollment := f s\<rparr>) (submission_rows d)\<rparr>)
                  req course_id submission_id) =
             Inr (Render ''onlinecourse/exam_result_bootstrap.html'' ctx)"
proof -
  obtain ctx where run: "show_exam_result d req course_id submission_id =
      (d, Inr (Render ''onlinecourse/exam_result_bootstrap.html'' ctx))"
    and total: "ctx_grade ctx =
             (\<Sum>q\<leftarrow>filter (\<lambda>q. question_course q = course_id) (question_rows d).
                if {k. \<exists>ch \<in> set (choice_rows d). choice_pk ch = k \<and>
                       choice_question ch = question_pk q \<and>
                       (submission_id, k) \<in> set (submission_choices_rows d)}
                   = {k. \<exists>ch \<in> set (choice_rows d). choice_pk ch = k \<and>
                       choice_question ch = question_pk q \<and> is_correct ch}
                then grade q else 0)"
    using show_exam_result_total [OF assms, of req] by blast
  have "snd (show_exam_result
                  (d\<lparr>enrollment_rows := es,
                     submission_rows :=
                       map (\<lambda>s. s\<lparr>submission_enrollment := f s\<rparr>) (submission_rows d)\<rparr>)
                  req course_id submission_id) =
             Inr (Render ''onlinecourse/exam_result_bootstrap.html'' ctx)"
    unfolding show_exam_result_relinked run by simp
  then show ?thesis using run total by blast
qed

text \<open>Submission 2 belongs to enrollment 2, which is in course 2; graded for course 1 it
  renders 0 points, and the same with every submission linked to enrollment 1 and the
  enrollment table empty.\<close>

theorem grade_ignores_enrollment_witness:
  "get_course ex_db 1 = Inr ex_course1 \<and>
   objects_get SubmissionModel (\<lambda>s. submission_pk s = 2) (submission_rows ex_db) = Inr ex_sub2 \<and>
   map enrollment_course
     (filter (\<lambda>e. enrollment_pk e = submission_enrollment ex_sub2) (enrollment_rows ex_db)) = [2] \<and>
   snd (show_exam_result ex_db (ex_request (User 8)) 1 2) =
     Inr (Render ''onlinecourse/exam_result_bootstrap.html''
        \<lparr>ctx_course = ex_course1, ctx_grade = 0, ctx_choices = [ex_choice 8 4 True]\<rparr>) \<and>
   snd (show_exam_result
          (ex_db\<lparr>enrollment_rows := [],
                 submission_rows :=
                   map (\<lambda>s. s\<lparr>submission_enrollment := 1\<rparr>) (submission_rows ex_db)\<rparr>)
          (ex_request (User 8)) 1 2) =
     Inr (Render ''onlinecourse/exam_result_bootstrap.html''
        \<lparr>ctx_course = ex_course1, ctx_grade = 0, ctx_choices = [ex_choice 8 4 True]\<rparr>)"
proof -
  have a: "get_course ex_db 1 = Inr ex_course1" by code_simp
  have b: "objects_get SubmissionModel (\<lambda>s. submission_pk s = 2) (submission_rows ex_db) = Inr ex_sub2"
    by code_simp
  have e: "map enrollment_course
     (filter (\<lambda>e. enrollment_pk e = submission_enrollment ex_sub2) (enrollment_rows ex_db)) = [2]"
    by code_simp
  have run: "show_exam_result ex_db (ex_request (User 8)) 1 2 =
     (ex_db, Inr (Render ''onlinecourse/exam_result_bootstrap.html''
        \<lparr>ctx_course = ex_course1, ctx_grade = 0, ctx_choices = [ex_choice 8 4 True]\<rparr>))"
    by code_simp
  have r: "snd (show_exam_result
          (ex_db\<lparr>enrollment_rows := [],
                 submission_rows :=
                   map (\<lambda>s. s\<lparr>submission_enrollment := 1\<rparr>) (submission_rows ex_db)\<rparr>)
          (ex_request (User 8)) 1 2) =
     Inr (Render ''onlinecourse/exam_result_bootstrap.html''
        \<lparr>ctx_course = ex_course1, ctx_grade = 0, ctx_choices = [ex_choice 8 4 True]\<rparr>)"
    using grade_ignores_enrollment [OF a b, where req = "ex_request (User 8)" and es = "[]"
        and f = "\<lambda>s. 1"]
    unfolding run by auto
  show ?thesis using a b e r unfolding run by simp
qed

text \<open>Claim C6 as stated fails: submission 2 of the concrete state belongs to enrollment 2,
  which is in course 2, and grading it for course 1 renders a result with the score 0.\<close>

theorem grade_ignores_enrollment_counterexample:
  "get_course ex_db 1 = Inr ex_course1 \<and>
   objects_get SubmissionModel (\<lambda>s. submission_pk s = 2) (submission_rows ex_db) = Inr ex_sub2 \<and>
   map enrollment_course
     (filter (\<lambda>e. enrollment_pk e = submission_enrollment ex_sub2) (enrollment_rows ex_db)) = [2] \<and>
   show_exam_result ex_db (ex_request (User 8)) 1 2 =
     (ex_db, Inr (Render ''onlinecourse/exam_result_bootstrap.html''
        \<lparr>ctx_course = ex_course1, ctx_grade = 0, ctx_choices = [ex_choice 8 4 True]\<rparr>))"
  by code_simp

section \<open>Grading again after the answer key changed\<close>

text \<open>What the flip leaves alone, and what it does to the answer key.\<close>

lemma flip_frame:
  "course_rows (flip_is_correct d k) = course_rows d"
  "enrollment_rows (flip_is_correct d k) = enrollment_rows d"
  "question_rows (flip_is_correct d k) = question_rows d"
  "submission_rows (flip_is_correct d k) = submission_rows d"
  "submission_choices_rows (flip_is_correct d k) = submission_choices_rows d"
  by (simp_all add: flip_is_correct_def)

lemma flip_get_course: "get_course (flip_is_correct d k) course_id = get_course d course_id"
  by (simp add: get_course_def flip_frame)

lemma flip_row_simps:
  "choice_pk (flip_row k c) = choice_pk c"
  "choice_question (flip_row k c) = choice_question c"
  "is_correct (flip_row k c) = (is_correct c \<noteq> (choice_pk c = k))"
  by (auto simp: flip_row_def)

lemma flip_choice_rows: "choice_rows (flip_is_correct d k) = map (flip_row k) (choice_rows d)"
  by (simp add: flip_is_correct_def)

lemma pk_filter_map:
  "set (map choice_pk (filter P (map g rows))) =
     {k'. \<exists>c \<in> set rows. choice_pk (g c) = k' \<and> P (g c)}"
  by auto

lemma flip_selected:
  "py_set (selected_choices (submission_choices_all (flip_is_correct d k) s) q) =
   py_set (selected_choices (submission_choices_all d s) q)"
proof -
  have "py_set (selected_choices (submission_choices_all (flip_is_correct d k) s) q) =
      set (map choice_pk
        (filter (\<lambda>c. (submission_pk s, choice_pk c) \<in> set (submission_choices_rows d) \<and>
                      choice_question c = question_pk q)
           (map (flip_row k) (choice_rows d))))"
    by (simp add: py_set_def selected_choices_def submission_choices_all_def flip_frame
        flip_choice_rows conj_commute)
  also have "\<dots> = py_set (selected_choices (submission_choices_all d s) q)"
    unfolding pk_filter_map py_set_selected by (auto simp: flip_row_simps)
  finally show ?thesis .
qed

lemma flip_row_key:
  "(choice_pk (flip_row k c) = k' \<and> choice_question (flip_row k c) = question_pk q \<and>
      is_correct (flip_row k c)) =
   (choice_pk c = k' \<and> choice_question c = question_pk q \<and> is_correct c \<noteq> (k' = k))"
  by (cases "choice_pk c = k") (auto simp: flip_row_def)

lemma flip_correct:
  "py_set (correct_choices (flip_is_correct d k) q) =
     {k'. \<exists>c \<in> set (choice_rows d). choice_pk c = k' \<and> choice_question c = question_pk q \<and>
            is_correct c \<noteq> (k' = k)}"
proof -
  have "py_set (correct_choices (flip_is_correct d k) q) =
      set (map choice_pk
        (filter (\<lambda>c. choice_question c = question_pk q \<and> is_correct c)
           (map (flip_row k) (choice_rows d))))"
    by (simp add: py_set_def correct_choices_def flip_choice_rows)
  also have "\<dots> = {k'. \<exists>c \<in> set (choice_rows d). choice_pk c = k' \<and>
      choice_question c = question_pk q \<and> is_correct c \<noteq> (k' = k)}"
    unfolding pk_filter_map flip_row_key ..
  finally show ?thesis .
qed

text \<open>With primary keys that are unique, the flip moves \<open>k\<close> in or out of the set of correct
  choices of the question it belongs to.\<close>

lemma flip_correct_differs:
  assumes "distinct (map choice_pk (choice_rows d))"
      and "c \<in> set (choice_rows d)" and "choice_pk c = k" and "choice_question c = question_pk q"
  shows "py_set (correct_choices (flip_is_correct d k) q) \<noteq> py_set (correct_choices d q)"
proof -
  have inj: "inj_on choice_pk (set (choice_rows d))"
    using assms(1) by (simp add: distinct_map)
  have uniq: "c' = c" if "c' \<in> set (choice_rows d)" "choice_pk c' = k" for c'
    using inj assms(2,3) that by (simp add: inj_on_def)
  have old: "k \<in> py_set (correct_choices d q) \<longleftrightarrow> is_correct c"
  proof
    assume "k \<in> py_set (correct_choices d q)"
    then obtain c' where "c' \<in> set (choice_rows d)" "choice_pk c' = k" "is_correct c'"
      by (auto simp: py_set_def correct_choices_def)
    then show "is_correct c" using uniq by blast
  next
    assume "is_correct c"
    then have "c \<in> set (correct_choices d q)" using assms(2,4) by (simp add: correct_choices_def)
    then show "k \<in> py_set (correct_choices d q)"
      unfolding py_set_def using assms(3) by force
  qed
  have new: "k \<in> py_set (correct_choices (flip_is_correct d k) q) \<longleftrightarrow> \<not> is_correct c"
  proof
    assume "k \<in> py_set (correct_choices (flip_is_correct d k) q)"
    then obtain c' where "c' \<in> set (choice_rows d)" "choice_pk c' = k" "\<not> is_correct c'"
      unfolding flip_correct by blast
    then show "\<not> is_correct c" using uniq by blast
  next
    assume "\<not> is_correct c"
    then show "k \<in> py_set (correct_choices (flip_is_correct d k) q)"
      unfolding flip_correct using assms(2,3,4) by blast
  qed
  show ?thesis using old new by blast
qed

text \<open>
  Claim C9. \<open>show_exam_result\<close> leaves the state as it was. When the flag \<open>is_correct\<close>
  of the choice \<open>k\<close> is flipped after a first call, the second call on the same submission
  renders the score of the updated answer key: the sum of the grades of the questions
  whose selected choices are exactly the choices that are correct after the flip. Nothing
  of the first call is kept: a question that owns the choice \<open>k\<close> and was awarded its
  grade by the first call is not awarded it by the second (primary keys being unique).
\<close>

theorem regrade_after_flip:
  assumes "get_course d course_id = Inr c"
      and "objects_get SubmissionModel (\<lambda>s. submission_pk s = submission_id) (submission_rows d) = Inr s"
  shows "fst (show_exam_result d req course_id submission_id) = d \<and>
         (\<exists>ctx. show_exam_result
                   (flip_is_correct (fst (show_exam_result d req course_id submission_id)) k)
                   req course_id submission_id =
                 (flip_is_correct d k, Inr (Render ''onlinecourse/exam_result_bootstrap.html'' ctx)) \<and>
               ctx_grade ctx =
                 (\<Sum>q\<leftarrow>filter (\<lambda>q. question_course q = course_id) (question_rows d).
                    if {k'. \<exists>ch \<in> set (choice_rows d). choice_pk ch = k' \<and>
                              choice_question ch = question_pk q \<and>
                              (submission_id, k') \<in> set (submission_choices_rows d)}
                       = {k'. \<exists>ch \<in> set (choice_rows d). choice_pk ch = k' \<and>
                              choice_question ch = question_pk q \<and>
                              is_correct ch \<noteq> (k' = k)}
                    then grade q else 0)) \<and>
         (distinct (map choice_pk (choice_rows d)) \<and>
          ch \<in> set (choice_rows d) \<and> choice_pk ch = k \<and> choice_question ch = question_pk q \<and>
          score_question d (submission_choices_all d s) q total_score \<noteq> total_score \<longrightarrow>
            score_question (flip_is_correct d k) (submission_choices_all (flip_is_correct d k) s)
              q total_score = total_score)"
proof (intro conjI impI)
  show state: "fst (show_exam_result d req course_id submission_id) = d"
    by (rule show_exam_result_state)
  have pk: "course_pk c = course_id" using assms(1) by (rule get_course_Inr)
  have sk: "submission_pk s = submission_id" using assms(2) by (rule objects_get_InrD)
  let ?d' = "flip_is_correct d k"
  let ?chs = "submission_choices_all ?d' s"
  let ?total = "fold (score_question ?d' ?chs) (question_set_all ?d' c) 0"
  have run: "show_exam_result ?d' req course_id submission_id =
      (?d', Inr (Render ''onlinecourse/exam_result_bootstrap.html''
                 \<lparr>ctx_course = c, ctx_grade = ?total, ctx_choices = ?chs\<rparr>))"
    using assms by (simp add: show_exam_result_def Let_def flip_get_course flip_frame)
  have cond: "(py_set (correct_choices ?d' q) = py_set (selected_choices ?chs q)) =
      ({k'. \<exists>ch \<in> set (choice_rows d). choice_pk ch = k' \<and> choice_question ch = question_pk q \<and>
              (submission_id, k') \<in> set (submission_choices_rows d)}
       = {k'. \<exists>ch \<in> set (choice_rows d). choice_pk ch = k' \<and> choice_question ch = question_pk q \<and>
              is_correct ch \<noteq> (k' = k)})" for q
  proof -
    have sel: "py_set (selected_choices ?chs q) =
        {k'. \<exists>ch \<in> set (choice_rows d). choice_pk ch = k' \<and> choice_question ch = question_pk q \<and>
               (submission_id, k') \<in> set (submission_choices_rows d)}"
      by (simp only: flip_selected, simp only: py_set_selected sk)
    show ?thesis unfolding sel flip_correct by (rule eq_commute)
  qed
  have total: "?total =
      (\<Sum>q\<leftarrow>filter (\<lambda>q. question_course q = course_id) (question_rows d).
         if {k'. \<exists>ch \<in> set (choice_rows d). choice_pk ch = k' \<and> choice_question ch = question_pk q \<and>
                (submission_id, k') \<in> set (submission_choices_rows d)}
            = {k'. \<exists>ch \<in> set (choice_rows d). choice_pk ch = k' \<and> choice_question ch = question_pk q \<and>
                is_correct ch \<noteq> (k' = k)}
         then grade q else 0)"
    unfolding fold_score_question cond question_set_all_def flip_frame pk by simp
  show "\<exists>ctx. show_exam_result
                   (flip_is_correct (fst (show_exam_result d req course_id submission_id)) k)
                   req course_id submission_id =
                 (flip_is_correct d k, Inr (Render ''onlinecourse/exam_result_bootstrap.html'' ctx)) \<and>
               ctx_grade ctx =
                 (\<Sum>q\<leftarrow>filter (\<lambda>q. question_course q = course_id) (question_rows d).
                    if {k'. \<exists>ch \<in> set (choice_rows d). choice_pk ch = k' \<and>
                              choice_question ch = question_pk q \<and>
                              (submission_id, k') \<in> set (submission_choices_rows d)}
                       = {k'. \<exists>ch \<in> set (choice_rows d). choice_pk ch = k' \<and>
                              choice_question ch = question_pk q \<and>
                              is_correct ch \<noteq> (k' = k)}
                    then grade q else 0)"
    unfolding state run using total by simp
next
  assume h: "distinct (map choice_pk (choice_rows d)) \<and>
          ch \<in> set (choice_rows d) \<and> choice_pk ch = k \<and> choice_question ch = question_pk q \<and>
          score_question d (submission_choices_all d s) q total_score \<noteq> total_score"
  then have before: "py_set (correct_choices d q) =
      py_set (selected_choices (submission_choices_all d s) q)"
    by (auto simp: score_question_def split: if_splits)
  have "py_set (correct_choices (flip_is_correct d k) q) \<noteq> py_set (correct_choices d q)"
    using h by (intro flip_correct_differs[where c = ch]) auto
  then show "score_question (flip_is_correct d k)
      (submission_choices_all (flip_is_correct d k) s) q total_score = total_score"
    unfolding score_question_def flip_selected before[symmetric] by simp
qed

text \<open>Flipping choice 3, a wrong choice of question 1, to correct: the submission that
  scored 50 points scores 0.\<close>

theorem regrade_after_flip_witness:
  "get_course ex_db 1 = Inr ex_course1 \<and>
   objects_get SubmissionModel (\<lambda>s. submission_pk s = 1) (submission_rows ex_db) = Inr ex_sub1 \<and>
   fst (show_exam_result ex_db (ex_request (User 7)) 1 1) = ex_db \<and>
   snd (show_exam_result ex_db (ex_request (User 7)) 1 1) =
     Inr (Render ''onlinecourse/exam_result_bootstrap.html''
        \<lparr>ctx_course = ex_course1, ctx_grade = 50,
          ctx_choices = [ex_choice 1 1 True, ex_choice 2 1 True, ex_choice 5 2 False,
                         ex_choice 6 3 True, ex_choice 7 3 False]\<rparr>) \<and>
   snd (show_exam_result
          (flip_is_correct (fst (show_exam_result ex_db (ex_request (User 7)) 1 1)) 3)
          (ex_request (User 7)) 1 1) =
     Inr (Render ''onlinecourse/exam_result_bootstrap.html''
        \<lparr>ctx_course = ex_course1, ctx_grade = 0,
          ctx_choices = [ex_choice 1 1 True, ex_choice 2 1 True, ex_choice 5 2 False,
                         ex_choice 6 3 True, ex_choice 7 3 False]\<rparr>)"
proof -
  have a: "get_course ex_db 1 = Inr ex_course1" by code_simp
  have b: "objects_get SubmissionModel (\<lambda>s. submission_pk s = 1) (submission_rows ex_db)
             = Inr ex_sub1" by code_simp
  have st: "fst (show_exam_result ex_db (ex_request (User 7)) 1 1) = ex_db"
    using regrade_after_flip [OF a b] by blast
  have r1: "snd (show_exam_result ex_db (ex_request (User 7)) 1 1) =
     Inr (Render ''onlinecourse/exam_result_bootstrap.html''
        \<lparr>ctx_course = ex_course1, ctx_grade = 50,
          ctx_choices = [ex_choice 1 1 True, ex_choice 2 1 True, ex_choice 5 2 False,
                         ex_choice 6 3 True, ex_choice 7 3 False]\<rparr>)" by code_simp
  have r2: "snd (show_exam_result (flip_is_correct ex_db 3) (ex_request (User 7)) 1 1) =
     Inr (Render ''onlinecourse/exam_result_bootstrap.html''
        \<lparr>ctx_course = ex_course1, ctx_grade = 0,
          ctx_choices = [ex_choice 1 1 True, ex_choice 2 1 True, ex_choice 5 2 False,
                         ex_choice 6 3 True, ex_choice 7 3 False]\<rparr>)" by code_simp
  show ?thesis using a b r1 r2 unfolding st by simp
qed

section \<open>The helper \<open>is_get_score\<close>\<close>

lemma length_filter_all:
  "(length (filter P xs) = length xs) = (\<forall>x \<in> set xs. P x)"
proof (induction xs)
  case Nil
  then show ?case by simp
next
  case (Cons x xs)
  have "length (filter P xs) \<noteq> Suc (length xs)"
    using length_filter_le [of P xs] by linarith
  then show ?case using Cons by auto
qed

lemma is_get_score_all_correct:
  "is_get_score d q selected_ids = (py_set (correct_choices d q) \<subseteq> set selected_ids)"
proof -
  have split: "filter (\<lambda>c. choice_question c = question_pk q \<and> is_correct c \<and>
                    choice_pk c \<in> set selected_ids) (choice_rows d) =
      filter (\<lambda>c. choice_pk c \<in> set selected_ids) (correct_choices d q)"
    by (simp add: correct_choices_def)
  have "is_get_score d q selected_ids =
      (length (filter (\<lambda>c. choice_pk c \<in> set selected_ids) (correct_choices d q)) =
       length (correct_choices d q))"
    unfolding is_get_score_def Let_def split by (auto simp: correct_choices_def)
  also have "\<dots> = (\<forall>c \<in> set (correct_choices d q). choice_pk c \<in> set selected_ids)"
    by (rule length_filter_all)
  also have "\<dots> = (py_set (correct_choices d q) \<subseteq> set selected_ids)"
    by (auto simp: py_set_def)
  finally show ?thesis .
qed

text \<open>
  Claim C10. \<open>is_get_score\<close> is true exactly when the number of correct choices of the
  question whose ids are among \<open>selected_ids\<close> equals the number of its correct choices,
  that is when every correct choice is selected. So it is true whenever the test of
  \<open>show_exam_result\<close> succeeds on the choices of a submission, and it is also true for
  question 3 and submission 1 of the concrete state, where a wrong choice is selected on
  top of the correct one and the test of \<open>show_exam_result\<close> fails.
\<close>

theorem is_get_score_lenient:
  "is_get_score d q selected_ids =
     (length (filter (\<lambda>c. choice_question c = question_pk q \<and> is_correct c \<and>
                          choice_pk c \<in> set selected_ids) (choice_rows d)) =
      length (filter (\<lambda>c. choice_question c = question_pk q \<and> is_correct c) (choice_rows d))) \<and>
   is_get_score d q selected_ids = (py_set (correct_choices d q) \<subseteq> set selected_ids) \<and>
   (py_set (correct_choices d q) = py_set (selected_choices (submission_choices_all d s) q) \<longrightarrow>
      is_get_score d q (map choice_pk (submission_choices_all d s))) \<and>
   is_get_score ex_db ex_q3 (map choice_pk (submission_choices_all ex_db ex_sub1)) \<and>
   py_set (correct_choices ex_db ex_q3) \<noteq>
     py_set (selected_choices (submission_choices_all ex_db ex_sub1) ex_q3)"
proof (intro conjI impI)
  show "is_get_score d q selected_ids =
     (length (filter (\<lambda>c. choice_question c = question_pk q \<and> is_correct c \<and>
                          choice_pk c \<in> set selected_ids) (choice_rows d)) =
      length (filter (\<lambda>c. choice_question c = question_pk q \<and> is_correct c) (choice_rows d)))"
    by (auto simp: is_get_score_def Let_def)
  show "is_get_score d q selected_ids = (py_set (correct_choices d q) \<subseteq> set selected_ids)"
    by (rule is_get_score_all_correct)
  show "is_get_score d q (map choice_pk (submission_choices_all d s))"
    if "py_set (correct_choices d q) = py_set (selected_choices (submission_choices_all d s) q)"
    unfolding is_get_score_all_correct that by (auto simp: py_set_def selected_choices_def)
  show "is_get_score ex_db ex_q3 (map choice_pk (submission_choices_all ex_db ex_sub1))"
    by code_simp
  show "py_set (correct_choices ex_db ex_q3) \<noteq>
     py_set (selected_choices (submission_choices_all ex_db ex_sub1) ex_q3)"
    by code_simp
qed

theorem is_get_score_lenient_witness:
  "py_set (correct_choices ex_db ex_q1) =
     py_set (selected_choices (submission_choices_all ex_db ex_sub1) ex_q1) \<and>
   is_get_score ex_db ex_q1 (map choice_pk (submission_choices_all ex_db ex_sub1)) \<and>
   is_get_score ex_db ex_q3 [6, 7] \<and>
   score_question ex_db (submission_choices_all ex_db ex_sub1) ex_q3 0 = 0"
proof -
  have a: "py_set (correct_choices ex_db ex_q1) =
     py_set (selected_choices (submission_choices_all ex_db ex_sub1) ex_q1)" by code_simp
  have b: "py_set (correct_choices ex_db ex_q3) \<subseteq> set [6, 7]" by code_simp
  have c: "score_question ex_db (submission_choices_all ex_db ex_sub1) ex_q3 0 = 0" by code_simp
  show ?thesis
    using a b c is_get_score_lenient [of ex_db ex_q1 "[]" ex_sub1]
      is_get_score_lenient [of ex_db ex_q3 "[6, 7]" ex_sub1]
    by blast
qed

section \<open>Submitting\<close>

text \<open>
  Claim C7. When the course exists and the learner has no enrollment row for it,
  \<open>submit\<close> raises \<open>Enrollment.DoesNotExist\<close> and leaves the state as it was; in
  particular no submission row is created.
\<close>

theorem submit_not_enrolled:
  assumes "get_course d course_id = Inr c"
      and "request_user req = User uid"
      and "enrollment_filter d uid course_id = []"
  shows "submit py_int d req course_id = (d, Inl (DoesNotExist EnrollmentModel))"
proof -
  have pk: "course_pk c = course_id" using assms(1) by (rule get_course_Inr)
  have "objects_get EnrollmentModel
          (\<lambda>e. enrollment_user e = uid \<and> enrollment_course e = course_pk c) (enrollment_rows d)
        = Inl (DoesNotExist EnrollmentModel)"
    using assms(3) by (simp add: objects_get_def enrollment_filter_def pk)
  then show ?thesis using assms(1,2) by (simp add: submit_def)
qed

theorem submit_not_enrolled_witness:
  "get_course ex_db 2 = Inr ex_course2 \<and>
   request_user (ex_request (User 7)) = User 7 \<and>
   enrollment_filter ex_db 7 2 = [] \<and>
   submit (\<lambda>v. None) ex_db (ex_request (User 7)) 2 = (ex_db, Inl (DoesNotExist EnrollmentModel)) \<and>
   submission_rows (fst (submit (\<lambda>v. None) ex_db (ex_request (User 7)) 2)) = [ex_sub1, ex_sub2]"
proof -
  have a: "get_course ex_db 2 = Inr ex_course2" by code_simp
  have b: "request_user (ex_request (User 7)) = User 7" by (simp add: ex_request_def)
  have c: "enrollment_filter ex_db 7 2 = []" by code_simp
  have d: "submission_rows ex_db = [ex_sub1, ex_sub2]" by (simp add: ex_db_def)
  show ?thesis using a b c d submit_not_enrolled [OF a b c, of "\<lambda>v. None"] by simp
qed

section \<open>Enrolling\<close>

text \<open>
  Claim C8. For an existing course, \<open>enroll\<close> called by the anonymous user answers with
  the redirect to the course page, not with an exception, and leaves the state as it was:
  no enrollment row is created and the counter of the course is unchanged.
\<close>

theorem enroll_anonymous:
  assumes "get_course d course_id = Inr c"
      and "request_user req = AnonymousUser"
  shows "enroll d req course_id =
           (d, Inr (HttpResponseRedirect ''onlinecourse:course_details'' [course_id]))"
proof -
  have pk: "course_pk c = course_id" using assms(1) by (rule get_course_Inr)
  show ?thesis using assms by (simp add: enroll_def check_if_enrolled_def Let_def pk)
qed

theorem enroll_anonymous_witness:
  "get_course ex_db 1 = Inr ex_course1 \<and>
   request_user (ex_request AnonymousUser) = AnonymousUser \<and>
   enroll ex_db (ex_request AnonymousUser) 1 =
     (ex_db, Inr (HttpResponseRedirect ''onlinecourse:course_details'' [1]))"
proof -
  have a: "get_course ex_db 1 = Inr ex_course1" by code_simp
  have b: "request_user (ex_request AnonymousUser) = AnonymousUser" by (simp add: ex_request_def)
  show ?thesis using a b enroll_anonymous [OF a b] by simp
qed

text \<open>The two ways \<open>enroll\<close> goes for a learner and an existing course, and the state
  after an enrollment that really happens.\<close>

lemma enroll_new:
  assumes "get_course d course_id = Inr c"
      and "request_user req = User uid"
      and "enrollment_filter d uid course_id = []"
  shows "enroll d req course_id =
           (course_save (enrollment_create d uid course_id ''honor'')
              (c\<lparr>total_enrollment := total_enrollment c + 1\<rparr>),
            Inr (HttpResponseRedirect ''onlinecourse:course_details'' [course_id]))"
proof -
  have pk: "course_pk c = course_id" using assms(1) by (rule get_course_Inr)
  show ?thesis using assms by (simp add: enroll_def check_if_enrolled_def Let_def pk)
qed

lemma enroll_old:
  assumes "get_course d course_id = Inr c"
      and "request_user req = User uid"
      and "enrollment_filter d uid course_id \<noteq> []"
  shows "enroll d req course_id =
           (d, Inr (HttpResponseRedirect ''onlinecourse:course_details'' [course_id]))"
proof -
  have pk: "course_pk c = course_id" using assms(1) by (rule get_course_Inr)
  show ?thesis using assms by (simp add: enroll_def check_if_enrolled_def Let_def pk)
qed

lemma enroll_cases:
  "fst (enroll d req course_id) = d \<or>
   (\<exists>c uid. get_course d course_id = Inr c \<and> request_user req = User uid \<and>
      enrollment_filter d uid course_id = [] \<and>
      fst (enroll d req course_id) =
        course_save (enrollment_create d uid course_id ''honor'')
          (c\<lparr>total_enrollment := total_enrollment c + 1\<rparr>))"
proof (cases "get_course d course_id")
  case (Inl e)
  then show ?thesis by (simp add: enroll_def)
next
  case (Inr c)
  show ?thesis
  proof (cases "request_user req")
    case AnonymousUser
    then show ?thesis using Inr by (simp add: enroll_def check_if_enrolled_def Let_def)
  next
    case (User uid)
    show ?thesis
    proof (cases "enrollment_filter d uid course_id = []")
      case True
      then show ?thesis using enroll_new[OF Inr User True] Inr User by simp
    next
      case False
      then show ?thesis using enroll_old[OF Inr User False] by simp
    qed
  qed
qed

lemma saved_course_rows:
  assumes "get_course d course_id = Inr c"
  shows "course_rows (course_save (enrollment_create d uid course_id m)
             (c\<lparr>total_enrollment := n\<rparr>)) =
           map (\<lambda>r. if course_pk r = course_id then c\<lparr>total_enrollment := n\<rparr> else r) (course_rows d)"
proof -
  have pk: "course_pk c = course_id" and inrows: "c \<in> set (course_rows d)"
    using assms by (rule get_course_Inr)+
  have "course_id \<in> course_pk ` set (course_rows d)" using pk inrows by force
  then show ?thesis by (simp add: course_save_def enrollment_create_def pk)
qed

lemma saved_enrollment_rows:
  "enrollment_rows (course_save (enrollment_create d uid course_id m) c') =
     enrollment_rows d @
       [\<lparr>enrollment_pk = fresh_pk (map enrollment_pk (enrollment_rows d)),
         enrollment_user = uid, enrollment_course = course_id, mode = m\<rparr>]"
  by (simp add: course_save_def enrollment_create_def)

lemma saved_get_course:
  assumes "get_course d course_id = Inr c"
  shows "get_course (course_save (enrollment_create d uid course_id m)
             (c\<lparr>total_enrollment := n\<rparr>)) course_id = Inr (c\<lparr>total_enrollment := n\<rparr>)"
proof -
  have pk: "course_pk c = course_id"
    and one: "filter (\<lambda>r. course_pk r = course_id) (course_rows d) = [c]"
    using assms by (rule get_course_Inr)+
  let ?f = "\<lambda>r. if course_pk r = course_id then c\<lparr>total_enrollment := n\<rparr> else r"
  have same: "(\<lambda>r. course_pk (?f r) = course_id) = (\<lambda>r. course_pk r = course_id)"
    by (auto simp: pk)
  have "filter (\<lambda>r. course_pk r = course_id) (map ?f (course_rows d)) =
          map ?f (filter (\<lambda>r. course_pk r = course_id) (course_rows d))"
    by (simp add: filter_map comp_def same)
  then have "filter (\<lambda>r. course_pk r = course_id) (map ?f (course_rows d)) =
          [c\<lparr>total_enrollment := n\<rparr>]"
    by (simp add: one pk)
  then show ?thesis
    unfolding saved_course_rows[OF assms] get_course_def get_object_or_404_def objects_get_def
    by simp
qed

lemma saved_enrollment_filter:
  "enrollment_filter (course_save (enrollment_create d uid course_id m) c') uid course_id =
     enrollment_filter d uid course_id @
       [\<lparr>enrollment_pk = fresh_pk (map enrollment_pk (enrollment_rows d)),
         enrollment_user = uid, enrollment_course = course_id, mode = m\<rparr>]"
  by (simp add: enrollment_filter_def saved_enrollment_rows)

text \<open>
  Claim C4, as amended. For an authenticated learner who has no enrollment row for an
  existing course, two calls of \<open>enroll\<close> in sequence for the pair leave exactly one
  enrollment row for it and the counter of the course one higher than before; the second
  call answers with the redirect and changes nothing.
\<close>

theorem enroll_twice:
  assumes "get_course d course_id = Inr c"
      and "request_user req = User uid"
      and "enrollment_filter d uid course_id = []"
  shows "length (enrollment_filter (fst (enroll (fst (enroll d req course_id)) req course_id))
            uid course_id) = 1 \<and>
         get_course (fst (enroll (fst (enroll d req course_id)) req course_id)) course_id =
           Inr (c\<lparr>total_enrollment := total_enrollment c + 1\<rparr>) \<and>
         enroll (fst (enroll d req course_id)) req course_id =
           (fst (enroll d req course_id),
            Inr (HttpResponseRedirect ''onlinecourse:course_details'' [course_id]))"
proof -
  let ?c' = "c\<lparr>total_enrollment := total_enrollment c + 1\<rparr>"
  let ?d1 = "course_save (enrollment_create d uid course_id ''honor'') ?c'"
  have first: "fst (enroll d req course_id) = ?d1"
    using enroll_new[OF assms] by simp
  have course1: "get_course ?d1 course_id = Inr ?c'"
    using assms(1) by (rule saved_get_course)
  have rows1: "length (enrollment_filter ?d1 uid course_id) = 1"
    by (simp add: saved_enrollment_filter assms(3))
  then have "enrollment_filter ?d1 uid course_id \<noteq> []" by auto
  then have second: "enroll ?d1 req course_id =
      (?d1, Inr (HttpResponseRedirect ''onlinecourse:course_details'' [course_id]))"
    using course1 assms(2) by (rule enroll_old[rotated 2])
  show ?thesis unfolding first second using rows1 course1 by simp
qed

theorem enroll_twice_witness:
  "get_course ex_db 1 = Inr ex_course1 \<and>
   request_user (ex_request (User 9)) = User 9 \<and>
   enrollment_filter ex_db 9 1 = [] \<and>
   length (enrollment_filter
      (fst (enroll (fst (enroll ex_db (ex_request (User 9)) 1)) (ex_request (User 9)) 1)) 9 1) = 1 \<and>
   get_course (fst (enroll (fst (enroll ex_db (ex_request (User 9)) 1)) (ex_request (User 9)) 1)) 1 =
     Inr (ex_course1\<lparr>total_enrollment := 2\<rparr>)"
proof -
  have a: "get_course ex_db 1 = Inr ex_course1" by code_simp
  have b: "request_user (ex_request (User 9)) = User 9" by (simp add: ex_request_def)
  have c: "enrollment_filter ex_db 9 1 = []" by code_simp
  have n: "total_enrollment ex_course1 + 1 = 2" by (simp add: ex_course1_def)
  have t: "length (enrollment_filter
        (fst (enroll (fst (enroll ex_db (ex_request (User 9)) 1)) (ex_request (User 9)) 1)) 9 1) = 1 \<and>
      get_course (fst (enroll (fst (enroll ex_db (ex_request (User 9)) 1)) (ex_request (User 9)) 1)) 1 =
        Inr (ex_course1\<lparr>total_enrollment := 2\<rparr>)"
    using enroll_twice [OF a b c] unfolding n by blast
  show ?thesis using a b c t by blast
qed

text \<open>Claim C4 as stated covers a learner who is enrolled already: learner 7 of the concrete
  state has one enrollment row for course 1, whose counter is 1 before the two calls and 1
  after them.\<close>

theorem enroll_twice_counterexample:
  "get_course ex_db 1 = Inr ex_course1 \<and>
   is_authenticated (request_user (ex_request (User 7))) \<and>
   length (enrollment_filter ex_db 7 1) = 1 \<and>
   total_enrollment ex_course1 = 1 \<and>
   get_course (fst (enroll (fst (enroll ex_db (ex_request (User 7)) 1)) (ex_request (User 7)) 1)) 1 =
     Inr (ex_course1\<lparr>total_enrollment := 1\<rparr>)"
  by code_simp

text \<open>The count of distinct learners survives an enrollment that really happens.\<close>

lemma saved_enrolled_rows:
  "enrolled_rows (course_save (enrollment_create d uid course_id m) c') k =
     enrolled_rows d k @
       (if k = course_id
        then [\<lparr>enrollment_pk = fresh_pk (map enrollment_pk (enrollment_rows d)),
               enrollment_user = uid, enrollment_course = course_id, mode = m\<rparr>]
        else [])"
  by (simp add: enrolled_rows_def saved_enrollment_rows)

lemma not_enrolled_user:
  assumes "enrollment_filter d uid course_id = []"
  shows "uid \<notin> set (map enrollment_user (enrolled_rows d course_id))"
proof
  assume "uid \<in> set (map enrollment_user (enrolled_rows d course_id))"
  then obtain e where "e \<in> set (enrollment_rows d)" "enrollment_course e = course_id"
    "enrollment_user e = uid"
    by (auto simp: enrolled_rows_def)
  then have "e \<in> set (enrollment_filter d uid course_id)"
    by (simp add: enrollment_filter_def)
  then show False using assms by simp
qed

lemma length_remdups_snoc:
  "x \<notin> set xs \<Longrightarrow> length (remdups (xs @ [x])) = Suc (length (remdups xs))"
  by (simp add: length_remdups_card_conv)

lemma enroll_new_learners_consistent:
  assumes "get_course d course_id = Inr c"
      and "enrollment_filter d uid course_id = []"
      and "learners_consistent d"
  shows "learners_consistent (course_save (enrollment_create d uid course_id m)
            (c\<lparr>total_enrollment := total_enrollment c + 1\<rparr>))"
proof -
  have pk: "course_pk c = course_id" and inrows: "c \<in> set (course_rows d)"
    using assms(1) by (rule get_course_Inr)+
  have old: "total_enrollment r =
      int (length (remdups (map enrollment_user (enrolled_rows d (course_pk r)))))"
    if "r \<in> set (course_rows d)" for r
    using assms(3) that by (simp add: learners_consistent_def list_all_iff)
  have new: "length (remdups (map enrollment_user (enrolled_rows d course_id) @ [uid])) =
      Suc (length (remdups (map enrollment_user (enrolled_rows d course_id))))"
    using not_enrolled_user[OF assms(2)] by (rule length_remdups_snoc)
  show ?thesis
    unfolding learners_consistent_def saved_course_rows[OF assms(1)] saved_enrolled_rows
    using old old[OF inrows] new by (auto simp: list_all_iff pk)
qed

lemma enroll_learners_consistent:
  assumes "learners_consistent d"
  shows "learners_consistent (fst (enroll d req course_id))"
  using enroll_cases[of d req course_id] assms
  by (auto simp: enroll_new_learners_consistent)

lemma enroll_seq_learners_consistent:
  "learners_consistent d \<Longrightarrow> learners_consistent (enroll_seq d calls)"
proof (induction calls arbitrary: d)
  case Nil
  then show ?case by simp
next
  case (Cons call calls)
  obtain req course_id where call: "call = (req, course_id)" by (cases call)
  have "learners_consistent (fst (enroll d req course_id))"
    using Cons.prems by (rule enroll_learners_consistent)
  then show ?case unfolding call by (simp add: Cons.IH)
qed

text \<open>Without duplicate rows, the number of rows of a course is the number of its
  distinct learners.\<close>

lemma distinct_course_learners:
  "distinct (map (\<lambda>e. (enrollment_user e, enrollment_course e)) es) \<Longrightarrow>
   distinct (map enrollment_user (filter (\<lambda>e. enrollment_course e = cid) es))"
proof (induction es)
  case Nil
  then show ?case by simp
next
  case (Cons e es)
  have rest: "distinct (map enrollment_user (filter (\<lambda>e. enrollment_course e = cid) es))"
    using Cons by simp
  have new: "enrollment_user e \<notin> enrollment_user ` {x \<in> set es. enrollment_course x = cid}"
    if "enrollment_course e = cid"
  proof
    assume "enrollment_user e \<in> enrollment_user ` {x \<in> set es. enrollment_course x = cid}"
    then obtain x where "x \<in> set es" "enrollment_course x = cid"
      "enrollment_user x = enrollment_user e" by auto
    then have "(enrollment_user e, enrollment_course e) \<in>
        (\<lambda>e. (enrollment_user e, enrollment_course e)) ` set es"
      using that by (intro image_eqI[where x = x]) simp_all
    then show False using Cons.prems by simp
  qed
  show ?case using rest new by simp
qed

lemma rows_to_learners_consistent:
  assumes "rows_consistent d"
      and "distinct (map (\<lambda>e. (enrollment_user e, enrollment_course e)) (enrollment_rows d))"
  shows "learners_consistent d"
proof -
  have same: "remdups (map enrollment_user (enrolled_rows d cid)) =
      map enrollment_user (enrolled_rows d cid)" for cid
    unfolding enrolled_rows_def
    using distinct_course_learners[OF assms(2)] by (rule distinct_remdups_id)
  show ?thesis
    using assms(1) by (simp add: learners_consistent_def rows_consistent_def same)
qed

text \<open>
  Claim C5, as amended. Starting from a state in which the counter of every course equals
  the number of its enrollment rows and no learner has two enrollment rows for the same
  course, after any finite sequence of \<open>enroll\<close> requests, one after the other, the
  counter of every course equals the number of distinct learners with an enrollment row
  for it.
\<close>

theorem enroll_seq_counter:
  assumes "rows_consistent d"
      and "distinct (map (\<lambda>e. (enrollment_user e, enrollment_course e)) (enrollment_rows d))"
  shows "learners_consistent (enroll_seq d calls)"
  using rows_to_learners_consistent [OF assms] by (rule enroll_seq_learners_consistent)

theorem enroll_seq_counter_witness:
  "rows_consistent ex_db \<and>
   distinct (map (\<lambda>e. (enrollment_user e, enrollment_course e)) (enrollment_rows ex_db)) \<and>
   learners_consistent (enroll_seq ex_db ex_calls) \<and>
   map total_enrollment (course_rows (enroll_seq ex_db ex_calls)) = [2, 2] \<and>
   map (\<lambda>e. (enrollment_user e, enrollment_course e)) (enrollment_rows (enroll_seq ex_db ex_calls)) =
     [(7, 1), (8, 2), (9, 1), (7, 2)]"
proof -
  have a: "rows_consistent ex_db" by code_simp
  have b: "distinct (map (\<lambda>e. (enrollment_user e, enrollment_course e)) (enrollment_rows ex_db))"
    by code_simp
  have c: "map total_enrollment (course_rows (enroll_seq ex_db ex_calls)) = [2, 2]" by code_simp
  have d: "map (\<lambda>e. (enrollment_user e, enrollment_course e))
      (enrollment_rows (enroll_seq ex_db ex_calls)) = [(7, 1), (8, 2), (9, 1), (7, 2)]" by code_simp
  show ?thesis using a b c d enroll_seq_counter [OF a b, of ex_calls] by blast
qed

text \<open>Claim C5 as stated fails: in the state with two enrollment rows of learner 7 for
  course 1 and the counter at 2, the counter equals the number of rows; after the five
  requests learner 9 is enrolled too, the counter is 3 and the distinct learners are 2.\<close>

theorem enroll_seq_counter_counterexample:
  "rows_consistent ex_dup_db \<and>
   map total_enrollment (course_rows ex_dup_db) = [2] \<and>
   map (\<lambda>e. (enrollment_user e, enrollment_course e)) (enrollment_rows ex_dup_db) = [(7, 1), (7, 1)] \<and>
   \<not> learners_consistent (enroll_seq ex_dup_db ex_calls) \<and>
   map total_enrollment (course_rows (enroll_seq ex_dup_db ex_calls)) = [3] \<and>
   map (\<lambda>e. (enrollment_user e, enrollment_course e)) (enrollment_rows (enroll_seq ex_dup_db ex_calls)) =
     [(7, 1), (7, 1), (9, 1)]"
  by code_simp

end
